theory Spec2Isabelle
  imports Main
begin

section \<open>Schemas and migrations\<close>

text \<open>
  The type \<^verbatim>\<open>SchemaMigration\<close> of \<^verbatim>\<open>lib.ts\<close> is a tagged union with the three
  operations \<^verbatim>\<open>addField\<close>, \<^verbatim>\<open>renameField\<close> and \<^verbatim>\<open>removeField\<close>.
\<close>

datatype schemaMigration =
    AddField (fieldName: string)
  | RenameField (oldName: string) (newName: string)
  | RemoveField (fieldName: string)

text \<open>
  An object of class \<^verbatim>\<open>Schema\<close> has the two fields \<^verbatim>\<open>prev\<close> and \<^verbatim>\<open>migration\<close>;
  both are \<^verbatim>\<open>undefined\<close> (here \<open>None\<close>) in \<^verbatim>\<open>emptySchema\<close>. The code compares
  schemas with \<^verbatim>\<open>===\<close> and \<^verbatim>\<open>!==\<close>, that is by object identity, so a schema value
  carries the identity \<open>ident\<close> of the object: every \<^verbatim>\<open>new Schema(...)\<close> yields an
  identity that no earlier object has, and two values denote the same object exactly
  when they are equal. The fields are assigned in the constructor only, from an object
  that exists already, so the \<^verbatim>\<open>prev\<close> links form a finite chain and an inductive
  datatype represents them.
\<close>

datatype schema =
  Schema (ident: nat) (prev: "schema option") (migration: "schemaMigration option")

definition emptySchema :: schema where
  "emptySchema = Schema 0 None None"

text \<open>
  The three builders allocate a new object; its identity \<open>i\<close> is an argument of the
  model.
\<close>

definition addField :: "schema \<Rightarrow> string \<Rightarrow> nat \<Rightarrow> schema" where
  "addField this name i = Schema i (Some this) (Some (AddField name))"

definition renameField :: "schema \<Rightarrow> string \<Rightarrow> string \<Rightarrow> nat \<Rightarrow> schema" where
  "renameField this old new i = Schema i (Some this) (Some (RenameField old new))"

definition removeField :: "schema \<Rightarrow> string \<Rightarrow> nat \<Rightarrow> schema" where
  "removeField this name i = Schema i (Some this) (Some (RemoveField name))"

section \<open>Deltas\<close>

datatype 'v delta =
    No_op (deltaVersion: schema)
  | Set_op (deltaVersion: schema) (deltaProp: string) (deltaValue: 'v)

datatype direction = Downgrade | Upgrade

text \<open>
  The exceptions of the code: the \<^verbatim>\<open>TypeError\<close> that JavaScript throws when a
  property of \<^verbatim>\<open>undefined\<close> is read, and the \<^verbatim>\<open>Error\<close> with a message that
  \<^verbatim>\<open>Handler.set\<close> throws. A failing \<^verbatim>\<open>console.assert\<close> prints a message and
  goes on, so it is no branch of the model.
\<close>

datatype error = TypeError | Error string

section \<open>Translating a delta through one version\<close>

text \<open>
  \<^verbatim>\<open>upgradeOrDowngradeDelta\<close>. Reading \<^verbatim>\<open>migration.op\<close> throws when the version is
  \<^verbatim>\<open>emptySchema\<close>, whose migration is \<^verbatim>\<open>undefined\<close>; the read happens for a
  \<^verbatim>\<open>set\<close> delta only. The case \<^verbatim>\<open>addField\<close> of the inner \<^verbatim>\<open>switch\<close> has no
  \<^verbatim>\<open>break\<close>: when it does not return it runs on into the statements of the case
  \<^verbatim>\<open>removeField\<close>, which is the second test of the \<open>AddField\<close> branch below.
\<close>

fun upgradeOrDowngradeDelta :: "'v delta \<Rightarrow> direction \<Rightarrow> schema \<Rightarrow> error + 'v delta" where
  "upgradeOrDowngradeDelta (No_op dv) direction version = Inr (No_op version)"
| "upgradeOrDowngradeDelta (Set_op dv p x) direction version =
     (case migration version of
        None \<Rightarrow> Inl TypeError
      | Some (AddField name) \<Rightarrow>
          if direction = Downgrade \<and> p = name then Inr (No_op version)
          else if direction = Upgrade \<and> p = name then Inr (No_op version)
          else Inr (Set_op version p x)
      | Some (RemoveField name) \<Rightarrow>
          if direction = Upgrade \<and> p = name then Inr (No_op version)
          else Inr (Set_op version p x)
      | Some (RenameField old new) \<Rightarrow>
          if direction = Upgrade \<and> p = old then Inr (Set_op version new x)
          else if direction = Downgrade \<and> p = new then Inr (Set_op version old x)
          else Inr (Set_op version p x))"

text \<open>\<^verbatim>\<open>applyDelta\<close>: the instance is an object with string keys.\<close>

fun applyDelta :: "(string \<rightharpoonup> 'v) \<Rightarrow> 'v delta \<Rightarrow> (string \<rightharpoonup> 'v)" where
  "applyDelta instance (No_op dv) = instance"
| "applyDelta instance (Set_op dv p x) = instance(p \<mapsto> x)"

section \<open>The relationship of two versions\<close>

text \<open>
  \<^verbatim>\<open>versionInheritsFrom\<close>: the loop follows \<^verbatim>\<open>prev\<close> until it is \<^verbatim>\<open>undefined\<close>.
\<close>

fun versionInheritsFrom :: "schema \<Rightarrow> schema \<Rightarrow> bool" where
  "versionInheritsFrom (Schema i p m) ancestorVersion =
     (if Schema i p m = ancestorVersion then True
      else case p of None \<Rightarrow> False | Some q \<Rightarrow> versionInheritsFrom q ancestorVersion)"

type_synonym versionHistory = "(schema \<times> direction) list"

text \<open>
  The two loops of \<^verbatim>\<open>getVersionRelationship\<close>. Neither tests whether \<^verbatim>\<open>version\<close>
  is still an object: past the root, \<^verbatim>\<open>version\<close> is \<^verbatim>\<open>undefined\<close>, which differs
  from the version looked for, the body runs once more and \<^verbatim>\<open>version.prev\<close> throws.
  \<^verbatim>\<open>unshift\<close> adds at the front, \<^verbatim>\<open>push\<close> at the end.
\<close>

fun upgradeLoop :: "schema \<Rightarrow> schema \<Rightarrow> versionHistory \<Rightarrow> error + versionHistory" where
  "upgradeLoop (Schema i p m) sourceVersion history =
     (if Schema i p m = sourceVersion then Inr history
      else case p of
        None \<Rightarrow> Inl TypeError
      | Some q \<Rightarrow> upgradeLoop q sourceVersion ((Schema i p m, Upgrade) # history))"

fun downgradeLoop :: "schema \<Rightarrow> schema \<Rightarrow> versionHistory \<Rightarrow> error + versionHistory" where
  "downgradeLoop (Schema i p m) targetVersion history =
     (if Schema i p m = targetVersion then Inr history
      else case p of
        None \<Rightarrow> Inl TypeError
      | Some q \<Rightarrow> downgradeLoop q targetVersion (history @ [(Schema i p m, Downgrade)]))"

definition getVersionRelationship :: "schema \<Rightarrow> schema \<Rightarrow> error + versionHistory" where
  "getVersionRelationship sourceVersion targetVersion =
     (if versionInheritsFrom targetVersion sourceVersion
      then upgradeLoop targetVersion sourceVersion []
      else downgradeLoop sourceVersion targetVersion [])"

section \<open>Translating a delta to a version\<close>

text \<open>The \<^verbatim>\<open>for\<close> loop of \<^verbatim>\<open>translateDelta\<close>, and the function itself.\<close>

fun translateLoop :: "versionHistory \<Rightarrow> 'v delta \<Rightarrow> error + 'v delta" where
  "translateLoop [] delta = Inr delta"
| "translateLoop ((version, direction) # history) delta =
     (case upgradeOrDowngradeDelta delta direction version of
        Inl e \<Rightarrow> Inl e
      | Inr delta' \<Rightarrow> translateLoop history delta')"

definition translateDelta :: "'v delta \<Rightarrow> schema \<Rightarrow> error + 'v delta" where
  "translateDelta delta targetVersion =
     (case getVersionRelationship (deltaVersion delta) targetVersion of
        Inl e \<Rightarrow> Inl e
      | Inr history \<Rightarrow> translateLoop history delta)"

section \<open>Ledgers and views\<close>

text \<open>
  A ledger is an array of deltas that all views of an instance share and that
  \<^verbatim>\<open>Handler.set\<close> extends in place. The arrays live in a store, and a handler holds
  the reference of its ledger, so that two views of one instance are two handlers with
  the same reference. A function that writes takes the store and returns it, also when
  it throws.
\<close>

type_synonym ledgerRef = nat

type_synonym 'v store = "ledgerRef \<Rightarrow> 'v delta list"

text \<open>
  \<^verbatim>\<open>renderLedgerAsVersion\<close>: \<^verbatim>\<open>ledger.reduce(reducer, {})\<close>, which stops at the
  first delta whose translation throws.
\<close>

fun reduceLedger :: "'v delta list \<Rightarrow> schema \<Rightarrow> (string \<rightharpoonup> 'v) \<Rightarrow> error + (string \<rightharpoonup> 'v)" where
  "reduceLedger [] version state = Inr state"
| "reduceLedger (delta # ledger) version state =
     (case translateDelta delta version of
        Inl e \<Rightarrow> Inl e
      | Inr delta' \<Rightarrow> reduceLedger ledger version (applyDelta state delta'))"

definition renderLedgerAsVersion :: "'v delta list \<Rightarrow> schema \<Rightarrow> error + (string \<rightharpoonup> 'v)" where
  "renderLedgerAsVersion ledger version = reduceLedger ledger version Map.empty"

text \<open>
  A property key that reaches a trap of a \<^verbatim>\<open>Proxy\<close> is a string or a symbol;
  \<^verbatim>\<open>ledgerSymbol\<close> is the symbol the module creates for itself.
\<close>

datatype symbol = LedgerSymbol | OtherSymbol nat

datatype propertyKey = StringKey string | SymbolKey symbol

record handler =
  ledger :: ledgerRef
  version :: schema

text \<open>
  \<^verbatim>\<open>Handler.set\<close> of \<^verbatim>\<open>lib.ts\<close>. (The JavaScript edition of the library that
  follows it in the sources has the same method without the test of the key.)
\<close>

definition handler_set ::
  "handler \<Rightarrow> propertyKey \<Rightarrow> 'v \<Rightarrow> 'v store \<Rightarrow> (error + bool) \<times> 'v store" where
  "handler_set this key x st =
     (case key of
        SymbolKey s \<Rightarrow> (Inl (Error ''Cannot set non-string property key''), st)
      | StringKey p \<Rightarrow>
          (Inr True, st(ledger this := st (ledger this) @ [Set_op (version this) p x])))"

text \<open>
  \<^verbatim>\<open>Handler.get\<close> returns the ledger itself for \<^verbatim>\<open>ledgerSymbol\<close> and
  \<^verbatim>\<open>state[prop]\<close> otherwise. \<open>PropertyResult None\<close> says that the rendered state has no
  own property of that name: JavaScript then answers \<^verbatim>\<open>undefined\<close>, unless the name
  is a member of \<^verbatim>\<open>Object.prototype\<close>. The state has string keys only.
\<close>

datatype 'v getResult = LedgerResult ledgerRef | PropertyResult "'v option"

definition handler_get ::
  "handler \<Rightarrow> propertyKey \<Rightarrow> 'v store \<Rightarrow> error + 'v getResult" where
  "handler_get this key st =
     (if key = SymbolKey LedgerSymbol then Inr (LedgerResult (ledger this))
      else case renderLedgerAsVersion (st (ledger this)) (version this) of
        Inl e \<Rightarrow> Inl e
      | Inr state \<Rightarrow>
          (case key of
             StringKey p \<Rightarrow> Inr (PropertyResult (state p))
           | SymbolKey s \<Rightarrow> Inr (PropertyResult None)))"

text \<open>
  \<^verbatim>\<open>Schema.newInstance\<close> allocates an empty ledger, whose reference \<open>r\<close> is an
  argument of the model, and lets \<^verbatim>\<open>Object.assign\<close> write the properties of the
  initial state through the view, in their order. \<^verbatim>\<open>Schema.viewInstance\<close> reads the
  ledger of a view through \<^verbatim>\<open>ledgerSymbol\<close>.
\<close>

fun assignAll ::
  "handler \<Rightarrow> (propertyKey \<times> 'v) list \<Rightarrow> 'v store \<Rightarrow> (error + unit) \<times> 'v store" where
  "assignAll view [] st = (Inr (), st)"
| "assignAll view ((key, x) # rest) st =
     (case handler_set view key x st of
        (Inl e, st') \<Rightarrow> (Inl e, st')
      | (Inr b, st') \<Rightarrow> assignAll view rest st')"

definition newInstance ::
  "schema \<Rightarrow> (propertyKey \<times> 'v) list \<Rightarrow> ledgerRef \<Rightarrow> 'v store \<Rightarrow> (error + handler) \<times> 'v store" where
  "newInstance this initialState r st =
     (let view = \<lparr>ledger = r, version = this\<rparr> in
      case assignAll view initialState (st(r := [])) of
        (Inl e, st') \<Rightarrow> (Inl e, st')
      | (Inr u, st') \<Rightarrow> (Inr view, st'))"

definition viewInstance :: "schema \<Rightarrow> handler \<Rightarrow> handler" where
  "viewInstance this instance = \<lparr>ledger = ledger instance, version = this\<rparr>"

section \<open>Notions of the specification\<close>

text \<open>
  The lineage of a version is the version itself followed by its ancestors, newest
  first. \<open>downTo d a\<close> lists the versions met on the way from \<open>d\<close> along \<^verbatim>\<open>prev\<close>
  before \<open>a\<close> is reached: it starts with \<open>d\<close> and leaves \<open>a\<close> out.
  \<open>strictlyBetween a d\<close> leaves out \<open>d\<close> as well: these are the versions strictly
  between the two. \<open>chainDistance d a\<close> counts the \<^verbatim>\<open>prev\<close> links from \<open>d\<close> to its
  ancestor \<open>a\<close>.
\<close>

fun lineage :: "schema \<Rightarrow> schema list" where
  "lineage (Schema i p m) = Schema i p m # (case p of None \<Rightarrow> [] | Some q \<Rightarrow> lineage q)"

definition downTo :: "schema \<Rightarrow> schema \<Rightarrow> schema list" where
  "downTo d a = takeWhile (\<lambda>v. v \<noteq> a) (lineage d)"

definition strictlyBetween :: "schema \<Rightarrow> schema \<Rightarrow> schema list" where
  "strictlyBetween a d = tl (downTo d a)"

fun chainDistance :: "schema \<Rightarrow> schema \<Rightarrow> nat option" where
  "chainDistance (Schema i p m) a =
     (if Schema i p m = a then Some 0
      else case p of None \<Rightarrow> None | Some q \<Rightarrow> map_option Suc (chainDistance q a))"

definition tagged :: "direction \<Rightarrow> schema list \<Rightarrow> versionHistory" where
  "tagged direction vs = map (\<lambda>v. (v, direction)) vs"

text \<open>
  A schema that the builders made from \<^verbatim>\<open>emptySchema\<close> has a migration wherever it
  has a predecessor. Two versions are on one chain when both are such schemas and one
  of them inherits from the other.
\<close>

fun wellFormed :: "schema \<Rightarrow> bool" where
  "wellFormed (Schema i p m) =
     (case p of None \<Rightarrow> True | Some q \<Rightarrow> m \<noteq> None \<and> wellFormed q)"

definition sameChain :: "schema \<Rightarrow> schema \<Rightarrow> bool" where
  "sameChain a b \<longleftrightarrow>
     wellFormed a \<and> wellFormed b \<and> (versionInheritsFrom a b \<or> versionInheritsFrom b a)"

section \<open>The scenario of the field that is renamed to the name of a removed field\<close>

definition version1 :: schema where
  "version1 = addField (addField emptySchema ''fieldX'' 1) ''fieldY'' 2"

definition version2 :: schema where
  "version2 =
     addField (renameField (removeField version1 ''fieldY'' 3) ''fieldX'' ''fieldY'' 4)
       ''fieldX'' 5"

definition view1 :: handler where
  "view1 = \<lparr>ledger = 0, version = version1\<rparr>"

definition view2 :: handler where
  "view2 = viewInstance version2 view1"

definition store0 :: "string store" where
  "store0 = snd (newInstance version1 [] 0 (\<lambda>r. []))"

definition store1 :: "string store" where
  "store1 =
     snd (handler_set view1 (StringKey ''fieldY'') ''B''
       (snd (handler_set view1 (StringKey ''fieldX'') ''A'' store0)))"

definition store2 :: "string store" where
  "store2 =
     snd (handler_set view2 (StringKey ''fieldY'') ''D''
       (snd (handler_set view2 (StringKey ''fieldX'') ''C'' store1)))"

section \<open>The resolver in terms of the lineage\<close>

lemma versionInheritsFrom_lineage: "versionInheritsFrom d a \<longleftrightarrow> a \<in> set (lineage d)"
  by (induction d a rule: versionInheritsFrom.induct) (auto split: option.splits)

lemma lineage_self: "d \<in> set (lineage d)"
  by (cases d) simp

lemma versionInheritsFrom_refl: "versionInheritsFrom d d"
  by (simp add: versionInheritsFrom_lineage lineage_self)

lemma lineage_size: "a \<in> set (lineage d) \<Longrightarrow> size a \<le> size d"
  by (induction d) (auto split: option.splits)

lemma upgradeLoop_eq:
  "upgradeLoop t s h =
     (if versionInheritsFrom t s then Inr (tagged Upgrade (rev (downTo t s)) @ h)
      else Inl TypeError)"
  by (induction t s h rule: upgradeLoop.induct)
     (auto simp: downTo_def tagged_def split: option.splits)

lemma downgradeLoop_eq:
  "downgradeLoop s t h =
     (if versionInheritsFrom s t then Inr (h @ tagged Downgrade (downTo s t))
      else Inl TypeError)"
  by (induction s t h rule: downgradeLoop.induct)
     (auto simp: downTo_def tagged_def split: option.splits)

lemma getVersionRelationship_eq:
  "getVersionRelationship s t =
     (if versionInheritsFrom t s then Inr (tagged Upgrade (rev (downTo t s)))
      else if versionInheritsFrom s t then Inr (tagged Downgrade (downTo s t))
      else Inl TypeError)"
  by (simp add: getVersionRelationship_def upgradeLoop_eq downgradeLoop_eq)

lemma chainDistance_eq:
  "chainDistance d a = (if versionInheritsFrom d a then Some (length (downTo d a)) else None)"
  by (induction d a rule: chainDistance.induct) (auto simp: downTo_def split: option.splits)

lemma downTo_self: "downTo a a = []"
  by (cases a) (simp add: downTo_def)

lemma downTo_step:
  "Schema i p m \<noteq> a \<Longrightarrow>
     downTo (Schema i p m) a = Schema i p m # (case p of None \<Rightarrow> [] | Some q \<Rightarrow> downTo q a)"
  by (auto simp: downTo_def split: option.splits)

lemma downTo_hd: "d \<noteq> a \<Longrightarrow> \<exists>vs. downTo d a = d # vs"
  by (cases d) (simp add: downTo_step)

text \<open>The last version before an ancestor is the child of that ancestor on the chain.\<close>

lemma downTo_last:
  "versionInheritsFrom d a \<Longrightarrow> d \<noteq> a \<Longrightarrow> \<exists>vs c. downTo d a = vs @ [c] \<and> prev c = Some a"
proof (induction d a rule: versionInheritsFrom.induct)
  case (1 i p m a)
  from "1.prems" obtain q where p: "p = Some q" and inh: "versionInheritsFrom q a"
    by (auto split: option.splits if_splits)
  show ?case
  proof (cases "q = a")
    case True
    with p "1.prems" have "downTo (Schema i p m) a = [] @ [Schema i p m]"
      by (simp add: downTo_step downTo_self)
    with p True show ?thesis by (metis schema.sel(2))
  next
    case False
    from "1.prems" p have "Schema i p m \<noteq> a" by simp
    from "1.IH"[OF this p inh False]
    obtain vs c where "downTo q a = vs @ [c]" "prev c = Some a"
      by blast
    with p "1.prems" have "downTo (Schema i p m) a = (Schema i p m # vs) @ [c]"
      by (simp add: downTo_step)
    with \<open>prev c = Some a\<close> show ?thesis by blast
  qed
qed

lemma downTo_prev:
  "versionInheritsFrom d a \<Longrightarrow> v \<in> set (downTo d a) \<Longrightarrow> prev v \<noteq> None"
  by (induction d a rule: versionInheritsFrom.induct)
     (auto simp: downTo_def split: option.splits if_splits)

lemma wellFormed_lineage: "wellFormed d \<Longrightarrow> v \<in> set (lineage d) \<Longrightarrow> wellFormed v"
  by (induction d) (auto split: option.splits)

lemma wellFormed_migration: "wellFormed v \<Longrightarrow> prev v \<noteq> None \<Longrightarrow> migration v \<noteq> None"
  by (cases v) (auto split: option.splits)

lemma downTo_migration:
  assumes "wellFormed d" "versionInheritsFrom d a" "v \<in> set (downTo d a)"
  shows "migration v \<noteq> None"
proof -
  from assms(3) have "v \<in> set (lineage d)"
    unfolding downTo_def by (rule set_takeWhileD[THEN conjunct1])
  with assms(1) have "wellFormed v" by (rule wellFormed_lineage)
  moreover from assms(2,3) have "prev v \<noteq> None" by (rule downTo_prev)
  ultimately show ?thesis by (rule wellFormed_migration)
qed

text \<open>The chain has no cycle: a version is no ancestor of its own predecessor.\<close>

lemma prev_not_ancestor: "prev c = Some t \<Longrightarrow> \<not> versionInheritsFrom t c"
proof
  assume p: "prev c = Some t" and "versionInheritsFrom t c"
  then have "size c \<le> size t" by (simp add: versionInheritsFrom_lineage lineage_size)
  moreover from p have "size t < size c" by (cases c) auto
  ultimately show False by simp
qed

section \<open>Single steps and their composition\<close>

lemma step_version: "upgradeOrDowngradeDelta d dir w = Inr d' \<Longrightarrow> deltaVersion d' = w"
  by (cases d) (auto split: option.splits schemaMigration.splits if_splits)

lemma step_total: "migration w \<noteq> None \<Longrightarrow> \<exists>d'. upgradeOrDowngradeDelta d dir w = Inr d'"
  by (cases d) (auto split: option.splits schemaMigration.splits)

lemma downgrade_idem:
  "upgradeOrDowngradeDelta d Downgrade w = Inr d' \<Longrightarrow>
     upgradeOrDowngradeDelta d' Downgrade w = Inr d'"
  by (cases d) (auto split: option.splits schemaMigration.splits if_splits)

lemma translateLoop_append:
  "translateLoop (h1 @ h2) d =
     (case translateLoop h1 d of Inl e \<Rightarrow> Inl e | Inr d' \<Rightarrow> translateLoop h2 d')"
  by (induction h1 arbitrary: d) (auto split: sum.splits)

lemma translateLoop_snoc:
  "translateLoop (h @ [(w, dir)]) d = Inr d' \<Longrightarrow>
     \<exists>d1. translateLoop h d = Inr d1 \<and> upgradeOrDowngradeDelta d1 dir w = Inr d'"
  by (auto simp: translateLoop_append split: sum.splits)

lemma translateLoop_total:
  "\<forall>e \<in> set h. migration (fst e) \<noteq> None \<Longrightarrow> \<exists>d'. translateLoop h d = Inr d'"
proof (induction h arbitrary: d)
  case Nil
  then show ?case by simp
next
  case (Cons e h)
  obtain w dir where e: "e = (w, dir)" by (cases e)
  from Cons.prems e have "migration w \<noteq> None" by simp
  then obtain d1 where "upgradeOrDowngradeDelta d dir w = Inr d1"
    using step_total by blast
  moreover from Cons have "\<exists>d'. translateLoop h d1 = Inr d'" by simp
  ultimately show ?case by (simp add: e)
qed

lemma translateLoop_No_op:
  "translateLoop history (No_op dv) = Inr (No_op (last (dv # map fst history)))"
  by (induction history arbitrary: dv) auto

text \<open>Between two versions of one chain the translation returns a delta.\<close>

lemma translateDelta_total:
  assumes "sameChain (deltaVersion d) t"
  shows "\<exists>d'. translateDelta d t = Inr d'"
proof (cases "versionInheritsFrom t (deltaVersion d)")
  case True
  from assms have "wellFormed t" by (simp add: sameChain_def)
  with True have "\<forall>e \<in> set (tagged Upgrade (rev (downTo t (deltaVersion d)))). migration (fst e) \<noteq> None"
    by (auto simp: tagged_def dest: downTo_migration)
  then show ?thesis using True
    by (simp add: translateDelta_def getVersionRelationship_eq translateLoop_total)
next
  case False
  with assms have down: "versionInheritsFrom (deltaVersion d) t" and "wellFormed (deltaVersion d)"
    by (auto simp: sameChain_def)
  then have "\<forall>e \<in> set (tagged Downgrade (downTo (deltaVersion d) t)). migration (fst e) \<noteq> None"
    by (auto simp: tagged_def dest: downTo_migration)
  then show ?thesis using False down
    by (simp add: translateDelta_def getVersionRelationship_eq translateLoop_total)
qed

lemma translateDelta_same: "translateDelta d (deltaVersion d) = Inr d"
  by (simp add: translateDelta_def getVersionRelationship_eq versionInheritsFrom_refl downTo_self
      tagged_def)

lemma translateDelta_version:
  assumes "translateDelta d t = Inr d'"
  shows "if versionInheritsFrom t (deltaVersion d) then deltaVersion d' = t
         else deltaVersion d' = last (downTo (deltaVersion d) t) \<and>
              prev (deltaVersion d') = Some t"
proof (cases "versionInheritsFrom t (deltaVersion d)")
  case up: True
  show ?thesis
  proof (cases "t = deltaVersion d")
    case True
    with assms show ?thesis by (simp add: translateDelta_same versionInheritsFrom_refl)
  next
    case False
    then obtain vs where "downTo t (deltaVersion d) = t # vs" using downTo_hd by blast
    with assms up obtain h where "translateLoop (h @ [(t, Upgrade)]) d = Inr d'"
      by (auto simp: translateDelta_def getVersionRelationship_eq tagged_def)
    then have "deltaVersion d' = t" using translateLoop_snoc step_version by blast
    with up show ?thesis by simp
  qed
next
  case noup: False
  with assms have down: "versionInheritsFrom (deltaVersion d) t"
    by (auto simp: translateDelta_def getVersionRelationship_eq split: if_splits)
  from noup have "deltaVersion d \<noteq> t" using versionInheritsFrom_refl by metis
  with down obtain vs c where vs: "downTo (deltaVersion d) t = vs @ [c]" and c: "prev c = Some t"
    using downTo_last by blast
  with assms noup down
  have "translateLoop (tagged Downgrade vs @ [(c, Downgrade)]) d = Inr d'"
    by (simp add: translateDelta_def getVersionRelationship_eq tagged_def)
  then have "deltaVersion d' = c" using translateLoop_snoc step_version by blast
  with noup c vs show ?thesis by simp
qed

section \<open>Replaying a ledger\<close>

lemma reduceLedger_append:
  "reduceLedger (l1 @ l2) w state =
     (case reduceLedger l1 w state of Inl e \<Rightarrow> Inl e | Inr state' \<Rightarrow> reduceLedger l2 w state')"
  by (induction l1 arbitrary: state) (auto split: sum.splits)

lemma reduceLedger_total:
  "\<forall>d \<in> set l. sameChain (deltaVersion d) w \<Longrightarrow> \<exists>state'. reduceLedger l w state = Inr state'"
proof (induction l arbitrary: state)
  case Nil
  then show ?case by simp
next
  case (Cons d l)
  then obtain d' where "translateDelta d w = Inr d'"
    using translateDelta_total by fastforce
  moreover from Cons have "\<exists>state'. reduceLedger l w (applyDelta state d') = Inr state'"
    by simp
  ultimately show ?case by simp
qed

text \<open>The values of the scenario's versions, as the simplifier needs them.\<close>

lemmas scenario_defs =
  version1_def version2_def view1_def view2_def store0_def store1_def store2_def
  emptySchema_def addField_def renameField_def removeField_def
  newInstance_def viewInstance_def handler_set_def handler_get_def
  renderLedgerAsVersion_def translateDelta_def getVersionRelationship_def


section \<open>The rule of a step through an added field\<close>

text \<open>
  In the downgrade direction a write to the added field becomes a no-op, and a write to
  another field passes a step through \<open>AddField\<close> in either direction.
\<close>

lemma addField_step_downgrade:
  "migration w = Some (AddField name) \<Longrightarrow>
     upgradeOrDowngradeDelta (Set_op dv p x) Downgrade w =
       Inr (if p = name then No_op w else Set_op w p x)"
  by simp

lemma addField_step_other:
  "migration w = Some (AddField name) \<Longrightarrow> p \<noteq> name \<Longrightarrow>
     upgradeOrDowngradeDelta (Set_op dv p x) dir w = Inr (Set_op w p x)"
  by simp

text \<open>
  The input of the next theorem arises from the public interface: a value written to
  \<^verbatim>\<open>x\<close> through a view of \<^verbatim>\<open>emptySchema.addField('x')\<close> is not seen through a view
  of the version that adds \<^verbatim>\<open>x\<close> once more.
\<close>

lemma addField_twice_hides_value:
  "handler_get \<lparr>ledger = 0, version = addField (addField emptySchema ''x'' 1) ''x'' 2\<rparr>
     (StringKey ''x'')
     (snd (handler_set \<lparr>ledger = 0, version = addField emptySchema ''x'' 1\<rparr>
        (StringKey ''x'') (1::nat) (\<lambda>r. [])))
   = Inr (PropertyResult None)"
  by (simp add: handler_get_def handler_set_def renderLedgerAsVersion_def translateDelta_def
      getVersionRelationship_def addField_def emptySchema_def)

text \<open>
  Claim C1. A \<^verbatim>\<open>set\<close> delta that goes up through a version whose migration is
  \<open>AddField name\<close> is said to keep its field and value. The code turns it into a no-op
  when its field is \<open>name\<close>: the case \<^verbatim>\<open>addField\<close> lacks its \<^verbatim>\<open>break\<close> and runs
  on into the test of the case \<^verbatim>\<open>removeField\<close>. The theorem evaluates the code on
  such a delta.
\<close>

theorem C1_addField_upgrade_collapses:
  "upgradeOrDowngradeDelta
     (Set_op (addField emptySchema ''x'' 1) ''x'' (1::nat)) Upgrade
     (addField (addField emptySchema ''x'' 1) ''x'' 2)
   = Inr (No_op (addField (addField emptySchema ''x'' 1) ''x'' 2))"
  by (simp add: addField_def)

section \<open>The worked scenario\<close>

text \<open>
  Claim C2. With \<open>version1\<close> holding \<^verbatim>\<open>fieldX\<close> and \<^verbatim>\<open>fieldY\<close>, and \<open>version2\<close>
  made from it by removing \<^verbatim>\<open>fieldY\<close>, renaming \<^verbatim>\<open>fieldX\<close> to \<^verbatim>\<open>fieldY\<close> and
  adding \<^verbatim>\<open>fieldX\<close>, two views share one instance. After \<^verbatim>\<open>A\<close> and \<^verbatim>\<open>B\<close> are
  written to \<^verbatim>\<open>fieldX\<close> and \<^verbatim>\<open>fieldY\<close> through the first view, the second view has
  no \<^verbatim>\<open>fieldX\<close> and reads \<^verbatim>\<open>A\<close> from \<^verbatim>\<open>fieldY\<close>. After \<^verbatim>\<open>C\<close> and \<^verbatim>\<open>D\<close> are
  written to \<^verbatim>\<open>fieldX\<close> and \<^verbatim>\<open>fieldY\<close> through the second view, the first view reads
  \<^verbatim>\<open>D\<close> and \<^verbatim>\<open>B\<close>, the second \<^verbatim>\<open>C\<close> and \<^verbatim>\<open>D\<close>.
\<close>

theorem C2_order_sensitivity_scenario:
  "fst (newInstance version1 [] 0 (\<lambda>r. [] :: string delta list)) = Inr view1 \<and>
   ledger view2 = ledger view1 \<and>
   handler_get view2 (StringKey ''fieldX'') store1 = Inr (PropertyResult None) \<and>
   handler_get view2 (StringKey ''fieldY'') store1 = Inr (PropertyResult (Some ''A'')) \<and>
   handler_get view1 (StringKey ''fieldX'') store2 = Inr (PropertyResult (Some ''D'')) \<and>
   handler_get view1 (StringKey ''fieldY'') store2 = Inr (PropertyResult (Some ''B'')) \<and>
   handler_get view2 (StringKey ''fieldX'') store2 = Inr (PropertyResult (Some ''C'')) \<and>
   handler_get view2 (StringKey ''fieldY'') store2 = Inr (PropertyResult (Some ''D''))"
  by (simp add: scenario_defs)

section \<open>Writing and reading through one view\<close>

text \<open>
  Claim C3. On a schema chain, that is when every delta of the ledger carries a version
  of the chain of the view's version, a value written to a string field through a view
  is the value read from that field through the same view right afterwards.
\<close>

theorem C3_round_trip:
  assumes "\<forall>d \<in> set (st (ledger v)). sameChain (deltaVersion d) (version v)"
  shows "fst (handler_set v (StringKey f) x st) = Inr True \<and>
         handler_get v (StringKey f) (snd (handler_set v (StringKey f) x st))
           = Inr (PropertyResult (Some x))"
proof -
  from assms obtain state where
    "reduceLedger (st (ledger v)) (version v) Map.empty = Inr state"
    using reduceLedger_total by blast
  moreover have "translateDelta (Set_op (version v) f x) (version v) = Inr (Set_op (version v) f x)"
    using translateDelta_same[of "Set_op (version v) f x"] by simp
  ultimately show ?thesis
    by (simp add: handler_set_def handler_get_def renderLedgerAsVersion_def reduceLedger_append)
qed

theorem C3_round_trip_witness:
  "list_all (\<lambda>d. sameChain (deltaVersion d) (version view2)) (store1 (ledger view2)) \<and>
   handler_get view2 (StringKey ''fieldY'')
     (snd (handler_set view2 (StringKey ''fieldY'') ''D'' store1))
     = Inr (PropertyResult (Some ''D''))"
  using C3_round_trip[of store1 view2 "''fieldY''" "''D''"]
  by (simp add: scenario_defs sameChain_def)

text \<open>
  Off a chain the replay throws: a view of one branch cannot read a ledger that holds a
  delta written through a view of another branch.
\<close>

lemma read_across_branches_throws:
  "handler_get \<lparr>ledger = 0, version = addField emptySchema ''a'' 1\<rparr> (StringKey ''a'')
     (snd (handler_set \<lparr>ledger = 0, version = addField emptySchema ''a'' 1\<rparr>
        (StringKey ''a'') (1::nat)
        (snd (handler_set \<lparr>ledger = 0, version = addField emptySchema ''b'' 2\<rparr>
           (StringKey ''b'') (2::nat) (\<lambda>r. [])))))
   = Inl TypeError"
  by (simp add: handler_get_def handler_set_def renderLedgerAsVersion_def translateDelta_def
      getVersionRelationship_def addField_def emptySchema_def)

section \<open>Versions on different branches\<close>

text \<open>
  Claim C4, as amended. When neither of two versions is an ancestor of the other,
  resolving the path between them returns no path: it throws. The code has no error of
  its own for unrelated versions; what it throws is the \<^verbatim>\<open>TypeError\<close> of reading
  \<^verbatim>\<open>prev\<close> of \<^verbatim>\<open>undefined\<close> past the root, after \<^verbatim>\<open>console.assert\<close> has printed
  that the versions are unrelated and gone on.
\<close>

theorem C4_unrelated_versions_fail:
  "\<not> versionInheritsFrom t s \<Longrightarrow> \<not> versionInheritsFrom s t \<Longrightarrow>
     getVersionRelationship s t = Inl TypeError"
  by (simp add: getVersionRelationship_eq)

theorem C4_unrelated_versions_fail_witness:
  "\<not> versionInheritsFrom (addField emptySchema ''b'' 2) (addField emptySchema ''a'' 1) \<and>
   \<not> versionInheritsFrom (addField emptySchema ''a'' 1) (addField emptySchema ''b'' 2) \<and>
   getVersionRelationship (addField emptySchema ''a'' 1) (addField emptySchema ''b'' 2)
     = Inl TypeError"
  using C4_unrelated_versions_fail[of "addField emptySchema ''b'' 2" "addField emptySchema ''a'' 1"]
  by (simp add: addField_def emptySchema_def)

text \<open>
  The claim as it was stated has the resolver fail with an error that names the unrelated
  versions. Between two children of \<^verbatim>\<open>emptySchema\<close> the error of the code is the
  \<^verbatim>\<open>TypeError\<close> of the engine, the very error that a \<^verbatim>\<open>set\<close> delta stepped through
  \<^verbatim>\<open>emptySchema\<close> raises when \<^verbatim>\<open>migration.op\<close> is read, and not the \<^verbatim>\<open>Error\<close>
  that the code throws on purpose.
\<close>

theorem C4_error_kind_counterexample:
  "getVersionRelationship (addField emptySchema ''a'' 1) (addField emptySchema ''b'' 2)
     = Inl TypeError \<and>
   upgradeOrDowngradeDelta (Set_op emptySchema ''a'' (1::nat)) Upgrade emptySchema
     = Inl TypeError \<and>
   TypeError \<noteq> Error ''Cannot set non-string property key''"
  by (simp add: getVersionRelationship_def addField_def emptySchema_def)

section \<open>The resolved path\<close>

text \<open>
  Claim C5, as amended. Between related versions the resolver returns a path whose length
  is the chain distance. When the target inherits from the source, the path lists the
  versions after the source up to the target, the target included, oldest first, each
  tagged \<open>Upgrade\<close>. When the source is a proper descendant of the target, it lists the
  versions from the source, the source included, down to the child of the target, newest
  first, each tagged \<open>Downgrade\<close>.
\<close>

theorem C5_resolved_path:
  "(versionInheritsFrom t s \<longrightarrow>
      getVersionRelationship s t = Inr (tagged Upgrade (rev (downTo t s))) \<and>
      chainDistance t s = Some (length (tagged Upgrade (rev (downTo t s))))) \<and>
   (\<not> versionInheritsFrom t s \<and> versionInheritsFrom s t \<longrightarrow>
      getVersionRelationship s t = Inr (tagged Downgrade (downTo s t)) \<and>
      chainDistance s t = Some (length (tagged Downgrade (downTo s t))))"
  by (simp add: getVersionRelationship_eq chainDistance_eq tagged_def)

theorem C5_resolved_path_witness:
  "versionInheritsFrom (addField (addField emptySchema ''a'' 1) ''b'' 2) emptySchema \<and>
   getVersionRelationship emptySchema (addField (addField emptySchema ''a'' 1) ''b'' 2)
     = Inr [(addField emptySchema ''a'' 1, Upgrade),
            (addField (addField emptySchema ''a'' 1) ''b'' 2, Upgrade)] \<and>
   chainDistance (addField (addField emptySchema ''a'' 1) ''b'' 2) emptySchema = Some 2 \<and>
   \<not> versionInheritsFrom emptySchema (addField (addField emptySchema ''a'' 1) ''b'' 2) \<and>
   getVersionRelationship (addField (addField emptySchema ''a'' 1) ''b'' 2) emptySchema
     = Inr [(addField (addField emptySchema ''a'' 1) ''b'' 2, Downgrade),
            (addField emptySchema ''a'' 1, Downgrade)]"
  using C5_resolved_path[of "addField (addField emptySchema ''a'' 1) ''b'' 2" emptySchema]
    C5_resolved_path[of emptySchema "addField (addField emptySchema ''a'' 1) ''b'' 2"]
  by (simp add: addField_def emptySchema_def downTo_def tagged_def)

text \<open>
  The claim as it was stated lists the versions strictly between the two. From
  \<^verbatim>\<open>emptySchema\<close> to its child there is none, and the path of the code holds the child.
\<close>

theorem C5_strictly_between_counterexample:
  "getVersionRelationship emptySchema (addField emptySchema ''a'' 1)
     \<noteq> Inr (tagged Upgrade (rev (strictlyBetween emptySchema (addField emptySchema ''a'' 1)))) \<and>
   getVersionRelationship emptySchema (addField emptySchema ''a'' 1)
     = Inr [(addField emptySchema ''a'' 1, Upgrade)] \<and>
   strictlyBetween emptySchema (addField emptySchema ''a'' 1) = [] \<and>
   chainDistance (addField emptySchema ''a'' 1) emptySchema = Some 1"
  by (simp add: getVersionRelationship_def strictlyBetween_def downTo_def tagged_def
      addField_def emptySchema_def)

section \<open>The version tag\<close>

text \<open>
  Claim C6, as amended. A step that returns a delta tags it with the version of the step,
  whether or not it rewrote the delta, and a step through a version that has a migration
  returns one. Between versions of one chain \<^verbatim>\<open>translateDelta\<close> returns a delta. Its
  tag is the target when the target inherits from the delta's version. Otherwise, on the
  way down, its tag is the last version of the path, the one through which the last step
  went: this is the child of the target on the chain of the delta's version, and not the
  target.
\<close>

theorem C6_version_tag:
  "(upgradeOrDowngradeDelta d dir w = Inr d1 \<longrightarrow> deltaVersion d1 = w) \<and>
   (migration w \<noteq> None \<longrightarrow> (\<exists>d1. upgradeOrDowngradeDelta d dir w = Inr d1)) \<and>
   (sameChain (deltaVersion d) t \<longrightarrow> (\<exists>d2. translateDelta d t = Inr d2)) \<and>
   (translateDelta d t = Inr d2 \<longrightarrow>
      (if versionInheritsFrom t (deltaVersion d) then deltaVersion d2 = t
       else deltaVersion d2 = last (downTo (deltaVersion d) t) \<and>
            prev (deltaVersion d2) = Some t \<and> deltaVersion d2 \<noteq> t))"
proof -
  have "deltaVersion d2 \<noteq> t" if "prev (deltaVersion d2) = Some t"
    using that prev_not_ancestor versionInheritsFrom_refl by metis
  then show ?thesis
    using step_version[of d dir w d1] step_total[of w d dir] translateDelta_total[of d t]
      translateDelta_version[of d t d2]
    by (auto split: if_splits)
qed

theorem C6_version_tag_witness:
  "upgradeOrDowngradeDelta (Set_op emptySchema ''a'' (7::nat)) Upgrade
       (renameField emptySchema ''a'' ''b'' 1)
     = Inr (Set_op (renameField emptySchema ''a'' ''b'' 1) ''b'' 7) \<and>
   deltaVersion (Set_op (renameField emptySchema ''a'' ''b'' 1) ''b'' (7::nat))
     = renameField emptySchema ''a'' ''b'' 1 \<and>
   migration (renameField emptySchema ''a'' ''b'' 1) \<noteq> None \<and>
   sameChain
     (deltaVersion
       (Set_op (addField (renameField emptySchema ''a'' ''b'' 1) ''c'' 2) ''b'' (7::nat)))
     emptySchema \<and>
   translateDelta
       (Set_op (addField (renameField emptySchema ''a'' ''b'' 1) ''c'' 2) ''b'' (7::nat))
       emptySchema
     = Inr (Set_op (renameField emptySchema ''a'' ''b'' 1) ''a'' 7) \<and>
   \<not> versionInheritsFrom emptySchema
       (deltaVersion
         (Set_op (addField (renameField emptySchema ''a'' ''b'' 1) ''c'' 2) ''b'' (7::nat))) \<and>
   last (downTo (addField (renameField emptySchema ''a'' ''b'' 1) ''c'' 2) emptySchema)
     = renameField emptySchema ''a'' ''b'' 1 \<and>
   deltaVersion (Set_op (renameField emptySchema ''a'' ''b'' 1) ''a'' (7::nat))
     = last (downTo
         (deltaVersion
           (Set_op (addField (renameField emptySchema ''a'' ''b'' 1) ''c'' 2) ''b'' (7::nat)))
         emptySchema) \<and>
   prev (deltaVersion (Set_op (renameField emptySchema ''a'' ''b'' 1) ''a'' (7::nat)))
     = Some emptySchema \<and>
   translateDelta (Set_op emptySchema ''a'' (7::nat))
       (addField (renameField emptySchema ''a'' ''b'' 1) ''c'' 2)
     = Inr (Set_op (addField (renameField emptySchema ''a'' ''b'' 1) ''c'' 2) ''b'' 7) \<and>
   versionInheritsFrom (addField (renameField emptySchema ''a'' ''b'' 1) ''c'' 2)
     (deltaVersion (Set_op emptySchema ''a'' (7::nat)))"
  using C6_version_tag[of "Set_op emptySchema ''a'' (7::nat)" Upgrade
      "renameField emptySchema ''a'' ''b'' 1"
      "Set_op (renameField emptySchema ''a'' ''b'' 1) ''b'' 7"
      "addField (renameField emptySchema ''a'' ''b'' 1) ''c'' 2"
      "Set_op (addField (renameField emptySchema ''a'' ''b'' 1) ''c'' 2) ''b'' 7"]
    C6_version_tag[of
      "Set_op (addField (renameField emptySchema ''a'' ''b'' 1) ''c'' 2) ''b'' (7::nat)"
      Downgrade "addField (renameField emptySchema ''a'' ''b'' 1) ''c'' 2"
      "Set_op (addField (renameField emptySchema ''a'' ''b'' 1) ''c'' 2) ''b'' 7" emptySchema
      "Set_op (renameField emptySchema ''a'' ''b'' 1) ''a'' 7"]
  by (simp add: addField_def renameField_def emptySchema_def sameChain_def translateDelta_def
      getVersionRelationship_def downTo_def)

text \<open>
  The claim as it was stated has the tag equal to the target after every translation. A
  delta of a child of \<^verbatim>\<open>emptySchema\<close> translated down to \<^verbatim>\<open>emptySchema\<close> keeps the
  tag of the child.
\<close>

theorem C6_downgrade_tag_counterexample:
  "translateDelta (Set_op (addField emptySchema ''a'' 1) ''b'' (0::nat)) emptySchema
     = Inr (Set_op (addField emptySchema ''a'' 1) ''b'' 0) \<and>
   deltaVersion (Set_op (addField emptySchema ''a'' 1) ''b'' (0::nat)) \<noteq> emptySchema"
  by (simp add: translateDelta_def getVersionRelationship_def addField_def emptySchema_def)

section \<open>Translating twice\<close>

text \<open>
  Claim C7. A delta that \<^verbatim>\<open>translateDelta\<close> returned for a target version is returned
  unchanged when it is translated to the same target once more.
\<close>

theorem C7_translate_twice:
  assumes "translateDelta d t = Inr d'"
  shows "translateDelta d' t = Inr d'"
proof (cases "versionInheritsFrom t (deltaVersion d)")
  case True
  with translateDelta_version[OF assms] have "deltaVersion d' = t" by simp
  then show ?thesis using translateDelta_same[of d'] by simp
next
  case noup: False
  with assms have down: "versionInheritsFrom (deltaVersion d) t"
    by (auto simp: translateDelta_def getVersionRelationship_eq split: if_splits)
  from noup have "deltaVersion d \<noteq> t" using versionInheritsFrom_refl by metis
  with down obtain vs c where vs: "downTo (deltaVersion d) t = vs @ [c]" and c: "prev c = Some t"
    using downTo_last by blast
  with assms noup down
  have "translateLoop (tagged Downgrade vs @ [(c, Downgrade)]) d = Inr d'"
    by (simp add: translateDelta_def getVersionRelationship_eq tagged_def)
  then obtain d1 where "upgradeOrDowngradeDelta d1 Downgrade c = Inr d'"
    using translateLoop_snoc by blast
  then have step: "upgradeOrDowngradeDelta d' Downgrade c = Inr d'" and ver: "deltaVersion d' = c"
    by (rule downgrade_idem, rule step_version)
  from c have nanc: "\<not> versionInheritsFrom t c" by (rule prev_not_ancestor)
  from c have cne: "c \<noteq> t" using nanc versionInheritsFrom_refl by metis
  from c have anc: "versionInheritsFrom c t" by (cases c) (auto simp: versionInheritsFrom_refl)
  from c cne have path: "downTo c t = [c]" by (cases c) (auto simp: downTo_step downTo_self)
  show ?thesis using step ver nanc anc path
    by (simp add: translateDelta_def getVersionRelationship_eq tagged_def)
qed

theorem C7_translate_twice_witness:
  "translateDelta
       (Set_op (addField (renameField emptySchema ''a'' ''b'' 1) ''c'' 2) ''b'' (7::nat))
       emptySchema
     = Inr (Set_op (renameField emptySchema ''a'' ''b'' 1) ''a'' 7) \<and>
   translateDelta (Set_op (renameField emptySchema ''a'' ''b'' 1) ''a'' (7::nat)) emptySchema
     = Inr (Set_op (renameField emptySchema ''a'' ''b'' 1) ''a'' 7)"
  using C7_translate_twice[of
      "Set_op (addField (renameField emptySchema ''a'' ''b'' 1) ''c'' 2) ''b'' (7::nat)"
      emptySchema "Set_op (renameField emptySchema ''a'' ''b'' 1) ''a'' 7"]
  by (simp add: translateDelta_def getVersionRelationship_def addField_def renameField_def
      emptySchema_def)

section \<open>No-op deltas\<close>

text \<open>
  Claim C8. Applying a no-op delta leaves the state as it is; a step turns a no-op delta
  into a no-op delta tagged with the version of the step; and along any path a no-op
  delta stays a no-op, tagged with the last version of the path.
\<close>

theorem C8_no_op_stays_no_op:
  "applyDelta state (No_op dv) = state \<and>
   upgradeOrDowngradeDelta (No_op dv) dir w = Inr (No_op w) \<and>
   translateLoop history (No_op dv) = Inr (No_op (last (dv # map fst history)))"
  by (simp add: translateLoop_No_op)

section \<open>Keys that are not strings\<close>

text \<open>
  Claim C9. \<^verbatim>\<open>Handler.set\<close> with a key that is not a string throws an \<^verbatim>\<open>Error\<close> of
  its own, which is not the \<^verbatim>\<open>TypeError\<close> of a broken chain, and leaves every ledger of
  the store as it was.
\<close>

theorem C9_non_string_key_rejected:
  "handler_set this (SymbolKey s) x st =
     (Inl (Error ''Cannot set non-string property key''), st) \<and>
   Error ''Cannot set non-string property key'' \<noteq> TypeError"
  by (simp add: handler_set_def)

section \<open>Recorded values\<close>

text \<open>
  Claim C10. When a step takes a \<^verbatim>\<open>set\<close> delta to a \<^verbatim>\<open>set\<close> delta, the value of the
  result is the value of the original.
\<close>

theorem C10_value_preserved:
  "upgradeOrDowngradeDelta (Set_op dv p x) dir w = Inr (Set_op dv' p' x') \<Longrightarrow> x' = x"
  by (auto split: option.splits schemaMigration.splits if_splits)

theorem C10_value_preserved_witness:
  "upgradeOrDowngradeDelta (Set_op emptySchema ''a'' (7::nat)) Upgrade
       (renameField emptySchema ''a'' ''b'' 1)
     = Inr (Set_op (renameField emptySchema ''a'' ''b'' 1) ''b'' 7) \<and> (7::nat) = 7"
  using C10_value_preserved[of emptySchema "''a''" "7::nat" Upgrade
      "renameField emptySchema ''a'' ''b'' 1" "renameField emptySchema ''a'' ''b'' 1" "''b''" 7]
  by (simp add: renameField_def)


end
